theory Spec2Isabelle
  imports Complex_Main "HOL-Library.Word" "HOL-Library.Log_Nat"
begin

section \<open>Python runtime: exceptions, indexing, unpacking\<close>

text \<open>
  The sources are Python. An exception that a statement can raise is a value of
  \<open>py_error\<close>. A function that can raise returns the exception in place of its value;
  one that changes a state returns the state it had reached and the exception, if any.
\<close>

datatype py_error = TypeError | ValueError | IndexError | KeyError | FileNotFoundError

definition py_index :: "'a list \<Rightarrow> int \<Rightarrow> py_error + 'a" where
  \<comment> \<open>The subscript \<open>xs[i]\<close> of a sequence of length \<open>n\<close>: positions \<open>0 .. n-1\<close>, and
      \<open>-n .. -1\<close> read from the back; anything else raises.\<close>
  "py_index xs i =
     (if 0 \<le> i \<and> i < int (length xs) then Inr (xs ! nat i)
      else if i < 0 \<and> - i \<le> int (length xs) then Inr (xs ! nat (int (length xs) + i))
      else Inl IndexError)"

fun unpack1 :: "'a list option \<Rightarrow> py_error + 'a" where
  \<comment> \<open>\<open>[x] = v\<close>: \<open>None\<close> is not iterable (TypeError); a list of another length than
      one does not unpack (ValueError).\<close>
  "unpack1 None = Inl TypeError"
| "unpack1 (Some [x]) = Inr x"
| "unpack1 (Some _) = Inl ValueError"

section \<open>Attribute values\<close>

text \<open>
  The values that \<open>check_node_attribute\<close> compares are Python objects of several types.
  A float is a float64: NaN, an infinity, or a finite number given by its exact value.
  A scalar is \<open>None\<close>, an int, a float, a \<open>bytes\<close> object (how a STRING attribute is
  read) or a \<open>str\<close>. The numbers of a list (how an INTS or FLOATS attribute is read) are
  floats and integers of 64 bits, the range of an INTS attribute and of numpy's integer
  arrays. A value is a scalar, a list of numbers, or a one-dimensional \<open>ndarray\<close> given
  by its elements; an expected value is a scalar or a list. An \<open>AttributeProto\<close> is given
  by its name and the value that \<open>helper.get_attribute_value\<close> reads from it.
\<close>

datatype py_float = NaN | PosInf | NegInf | Fin rat

datatype np_num = NInt "64 word" | NFloat py_float

datatype py_scalar = PNone | PInt int | PFloat py_float | PBytes string | PStr string

datatype py_value = PScalar py_scalar | PList "np_num list" | PArray "np_num list"


record attribute_proto =
  attr_name :: string
  get_attribute_value :: py_value

section \<open>Nodes, tensors and arrays\<close>

text \<open>
  \<open>NodeProto\<close>: operator type, the ordered tensor names \<open>node.input\<close> and \<open>node.output\<close>
  (fields \<open>node_input\<close> and \<open>node_output\<close>: \<open>input\<close> and \<open>output\<close> are reserved words), name,
  domain and the list of attributes.
\<close>

record node =
  op_type :: string
  node_input :: "string list"
  node_output :: "string list"
  name :: string
  domain :: string
  attribute :: "attribute_proto list"

text \<open>
  \<open>TensorProto\<close> (an initializer) and numpy's \<open>ndarray\<close>, over any element type:
  the rules below read the shape, and the quantization check compares elements with 0.
  Of a tensor the model keeps its \<open>dims\<close>, its \<open>data_type\<close> (0 is
  \<open>TensorProto.UNDEFINED\<close>) and its data; the data are \<open>None\<close> when they are kept in an
  external file that is missing.
\<close>

record 'a tensor =
  dims :: "nat list"
  data_type :: int
  data :: "'a list option"

record 'a ndarray =
  shape :: "nat list"
  elems :: "'a list"

definition to_array :: "'a tensor \<Rightarrow> py_error + 'a ndarray" where
  \<comment> \<open>\<open>NumpyHelper.to_array(tensor)\<close> with \<open>fill_zeros\<close> at its default \<open>False\<close>, as
      every call in these sources has it, is \<open>numpy_helper.to_array(tensor)\<close>: it raises
      TypeError on an undefined element type, fails to open a missing external file, and
      reshapes the data to \<open>dims\<close>, which raises ValueError unless the data fill them.\<close>
  "to_array t =
     (if data_type t = 0 then Inl TypeError
      else case data t of
             None \<Rightarrow> Inl FileNotFoundError
           | Some xs \<Rightarrow>
               if length xs = prod_list (dims t) then Inr \<lparr>shape = dims t, elems = xs\<rparr>
               else Inl ValueError)"

definition well_formed_tensor :: "'a tensor \<Rightarrow> bool" where
  \<comment> \<open>A tensor that \<open>to_array\<close> can read: a defined element type and data, at hand, that
      fill the dimensions.\<close>
  "well_formed_tensor t =
     (data_type t \<noteq> 0 \<and> (case data t of None \<Rightarrow> False | Some xs \<Rightarrow> length xs = prod_list (dims t)))"

definition make_node :: "string \<Rightarrow> string list \<Rightarrow> string list \<Rightarrow> string \<Rightarrow> node" where
  \<comment> \<open>\<open>onnx.helper.make_node(op_type, inputs, outputs, name)\<close>: no domain, no attributes.\<close>
  "make_node t ins outs nm =
     \<lparr>op_type = t, node_input = ins, node_output = outs, name = nm, domain = [], attribute = []\<rparr>"

section \<open>The model interface and the fusion state\<close>

text \<open>
  \<open>fuse\<close> calls four methods of \<open>OnnxModel\<close>, whose file is not among the sources, and
  \<open>check_qdq_node_for_fusion\<close> calls a fifth. They are the fields of a record of
  functions, so that every statement about the two holds for each implementation of them.
  \<open>match_parent_path\<close> returns Python's \<open>None\<close> or a list whose items are nodes or
  \<open>None\<close>; \<open>get_initializer\<close> returns a tensor or \<open>None\<close>; \<open>get_constant_value\<close>
  returns an array or \<open>None\<close>.
\<close>

record 'a onnx_model =
  match_parent_path :: "node \<Rightarrow> string list \<Rightarrow> int list \<Rightarrow> node option list option"
  get_initializer :: "string \<Rightarrow> 'a tensor option"
  is_safe_to_fuse_nodes ::
    "node list \<Rightarrow> string list \<Rightarrow> (string \<rightharpoonup> node list) \<Rightarrow> (string \<rightharpoonup> node) \<Rightarrow> bool"
  create_node_name :: "string \<Rightarrow> string"
  get_constant_value :: "string \<Rightarrow> 'a ndarray option"

text \<open>The fields of the \<open>Fusion\<close> base class that \<open>fuse\<close> writes.\<close>

record fusion =
  nodes_to_remove :: "node list"
  nodes_to_add :: "node list"
  node_name_to_graph_name :: "string \<rightharpoonup> string"
  this_graph_name :: string

section \<open>FusionGemmFastGelu.fuse\<close>

fun first_initializer ::
  "(string \<Rightarrow> 'a tensor option) \<Rightarrow> string list \<Rightarrow> int
     \<Rightarrow> py_error + (int \<times> 'a ndarray option)" where
  \<comment> \<open>The two scanning loops of \<open>fuse\<close> (lines 29-38 and 45-54): index and array of the
      first input that is an initializer; \<open>(-1, None)\<close>, the values set before the loop,
      when there is none; the exception of \<open>to_array\<close> when it raises on that
      initializer.\<close>
  "first_initializer gi [] i = Inr (-1, None)"
| "first_initializer gi (inp # rest) i =
     (case gi inp of
        None \<Rightarrow> first_initializer gi rest (i + 1)
      | Some initializer \<Rightarrow>
          (case to_array initializer of
             Inl e \<Rightarrow> Inl e
           | Inr a \<Rightarrow> Inr (i, Some a)))"

definition stage_fused ::
  "'a onnx_model \<Rightarrow> node \<Rightarrow> node \<Rightarrow> int \<Rightarrow> int option \<Rightarrow> fusion \<Rightarrow> fusion \<times> py_error option" where
  \<comment> \<open>Lines 66-77, after the safety check: the removal is staged first, then the input
      list is built (an index out of range raises with the removal already staged), then
      the fused node is made and staged. \<open>bias_index\<close> is \<open>None\<close> when \<open>has_bias\<close> is
      false.\<close>
  "stage_fused model nd matmul weight_index bias_index self =
     (let self1 = self\<lparr>nodes_to_remove := nodes_to_remove self @ [nd, matmul]\<rparr> in
      case py_index (node_input matmul) (1 - weight_index) of
        Inl e \<Rightarrow> (self1, Some e)
      | Inr x \<Rightarrow>
      (case py_index (node_input matmul) weight_index of
        Inl e \<Rightarrow> (self1, Some e)
      | Inr w \<Rightarrow>
      (case (case bias_index of
               None \<Rightarrow> Inr [x, w]
             | Some bi \<Rightarrow>
                 (case py_index (node_input nd) bi of Inl e \<Rightarrow> Inl e | Inr b \<Rightarrow> Inr [x, w, b])) of
        Inl e \<Rightarrow> (self1, Some e)
      | Inr inputs \<Rightarrow>
          (let fused_node =
                 (make_node ''GemmFastGelu'' inputs (node_output nd)
                    (create_node_name model ''GemmFastGelu''))
                 \<lparr>domain := ''com.microsoft''\<rparr>
           in (self1\<lparr>nodes_to_add := nodes_to_add self1 @ [fused_node],
                      node_name_to_graph_name :=
                        (node_name_to_graph_name self1)(name fused_node \<mapsto> this_graph_name self1)\<rparr>,
               None)))))"

definition fuse ::
  "'a onnx_model \<Rightarrow> node \<Rightarrow> (string \<rightharpoonup> node list) \<Rightarrow> (string \<rightharpoonup> node) \<Rightarrow> fusion
     \<Rightarrow> fusion \<times> py_error option" where
  \<comment> \<open>The result is the fusion state when \<open>fuse\<close> ends and the exception it raised, if
      any; \<open>(self, None)\<close> is a plain \<open>return\<close> with nothing staged.\<close>
  "fuse model nd input_name_to_nodes output_name_to_node self =
     (let has_bias = (length (node_input nd) = 2) in
      case unpack1 (match_parent_path model nd [''MatMul''] [0]) of
        Inl e \<Rightarrow> (self, Some e)
      | Inr None \<Rightarrow> (self, None)
      | Inr (Some matmul) \<Rightarrow>
      (case first_initializer (get_initializer model) (node_input matmul) 0 of
        Inl e \<Rightarrow> (self, Some e)
      | Inr (weight_index, None) \<Rightarrow> (self, None)
      | Inr (weight_index, Some weight) \<Rightarrow>
          if length (shape weight) \<noteq> 2 then (self, None)
          else
            (case (if has_bias
                   then (case first_initializer (get_initializer model) (node_input nd) 0 of
                           Inl e \<Rightarrow> Inl e
                         | Inr (bias_index, None) \<Rightarrow> Inr None
                         | Inr (bias_index, Some bias_weight) \<Rightarrow>
                             if length (shape bias_weight) \<noteq> 1 then Inr None
                             else Inr (Some (Some bias_index)))
                   else Inr (Some None)) of
               Inl e \<Rightarrow> (self, Some e)
             | Inr None \<Rightarrow> (self, None)
             | Inr (Some bias_index) \<Rightarrow>
                 (case py_index (node_output nd) 0 of
                    Inl e \<Rightarrow> (self, Some e)
                  | Inr out0 \<Rightarrow>
                      if \<not> is_safe_to_fuse_nodes model [nd, matmul] [out0]
                             input_name_to_nodes output_name_to_node
                      then (self, None)
                      else stage_fused model nd matmul weight_index bias_index self))))"

subsection \<open>A concrete pair of nodes\<close>

text \<open>
  The scenario \<open>MatMul(X, W) -> FastGelu(. , B)\<close> with \<open>W\<close> of rank 2 and \<open>B\<close> of rank 1,
  and models over it, by the answer of the safety check and the dimensions of the weight
  \<open>W\<close>, which holds four numbers of type 1 (FLOAT). \<open>lone_gelu\<close> reads the graph input \<open>X\<close>, which no
  node produces, so the matcher has nothing to return for it.
\<close>

definition ex_matmul :: node where
  "ex_matmul = \<lparr>op_type = ''MatMul'', node_input = [''X'', ''W''], node_output = [''Y''],
                 name = ''matmul_0'', domain = [], attribute = []\<rparr>"

definition ex_gelu :: node where
  "ex_gelu = \<lparr>op_type = ''FastGelu'', node_input = [''Y'', ''B''], node_output = [''Z''],
               name = ''gelu_0'', domain = ''com.microsoft'', attribute = []\<rparr>"

definition lone_gelu :: node where
  "lone_gelu = \<lparr>op_type = ''FastGelu'', node_input = [''X''], node_output = [''Z''],
                 name = ''gelu_1'', domain = ''com.microsoft'', attribute = []\<rparr>"

definition ex_model :: "bool \<Rightarrow> nat list \<Rightarrow> int onnx_model" where
  "ex_model safe wdims =
     \<lparr>match_parent_path =
        (\<lambda>n ops idx. if n = ex_gelu \<and> ops = [''MatMul''] \<and> idx = [0]
                      then Some [Some ex_matmul] else None),
      get_initializer =
        map_of [(''W'', \<lparr>dims = wdims, data_type = 1, data = Some [1, 0, 0, 1]\<rparr>),
                (''B'', \<lparr>dims = [2], data_type = 1, data = Some [0, 0]\<rparr>)],
      is_safe_to_fuse_nodes = (\<lambda>ns outs i2n o2n. safe),
      create_node_name = (\<lambda>prefix. prefix @ ''_0''),
      get_constant_value = (\<lambda>nm. None)\<rparr>"

definition ex_fusion :: fusion where
  "ex_fusion = \<lparr>nodes_to_remove = [], nodes_to_add = [],
                 node_name_to_graph_name = Map.empty, this_graph_name = ''main''\<rparr>"

subsection \<open>What \<open>fuse\<close> stages\<close>

lemma py_index_0: "py_index (x # xs) 0 = Inr x"
  by (simp add: py_index_def)

lemma to_array_well_formed:
  "well_formed_tensor t \<Longrightarrow> \<exists>xs. to_array t = Inr \<lparr>shape = dims t, elems = xs\<rparr>"
  by (auto simp: well_formed_tensor_def to_array_def split: option.splits)

lemma first_initializer_none:
  "\<forall>x\<in>set xs. gi x = None \<Longrightarrow> first_initializer gi xs i = Inr (-1, None)"
  by (induction xs arbitrary: i) auto

lemma first_initializer_at:
  "\<forall>x\<in>set pre. gi x = None \<Longrightarrow> gi c = Some t \<Longrightarrow>
   first_initializer gi (pre @ c # post) i =
     (case to_array t of Inl e \<Rightarrow> Inl e | Inr a \<Rightarrow> Inr (i + int (length pre), Some a))"
  by (induction pre arbitrary: i) (auto split: sum.splits)

lemma first_initializer_returns:
  "\<forall>x\<in>set xs. \<forall>t. gi x = Some t \<longrightarrow> well_formed_tensor t \<Longrightarrow>
   \<exists>r. first_initializer gi xs i = Inr r"
proof (induction xs arbitrary: i)
  case Nil
  then show ?case by simp
next
  case (Cons x xs)
  show ?case
  proof (cases "gi x")
    case None
    then show ?thesis using Cons by simp
  next
    case (Some t)
    then have "well_formed_tensor t" using Cons.prems by simp
    then show ?thesis using Some to_array_well_formed [of t] by auto
  qed
qed

lemma fuse_unsafe_keeps_state:
  assumes "match_parent_path model nd [''MatMul''] [0] = Some [Some matmul]"
      and "node_output nd = out0 # outs"
      and "\<not> is_safe_to_fuse_nodes model [nd, matmul] [out0] i2n o2n"
  shows "fst (fuse model nd i2n o2n self) = self"
  using assms
  by (simp add: fuse_def py_index_0 Let_def split: prod.splits option.splits sum.splits)

text \<open>
  C1. A trigger with exactly two inputs \<open>[y, b]\<close>, where \<open>y\<close> (the MatMul's output) is no
  initializer and \<open>b\<close> is an initializer of rank 1; the matcher returns the MatMul, whose
  two inputs are a non-constant \<open>x\<close> and an initializer \<open>w\<close> of rank 2, in either order;
  both initializers are well-formed tensors; the safety check passes. Then \<open>fuse\<close> raises
  nothing, appends exactly the trigger and the MatMul to \<open>nodes_to_remove\<close>, and appends
  to \<open>nodes_to_add\<close> one node of type GemmFastGelu in domain com.microsoft with inputs
  \<open>[x, w, b]\<close> and the trigger's own output list (its name is the one
  \<open>create_node_name\<close> gives, also recorded in \<open>node_name_to_graph_name\<close>).
\<close>

theorem fuse_stages_gemm_fast_gelu:
  assumes m: "match_parent_path model nd [''MatMul''] [0] = Some [Some matmul]"
      and nd_in: "node_input nd = [y, b]"
      and y: "get_initializer model y = None"
      and b: "get_initializer model b = Some tb" "well_formed_tensor tb" "length (dims tb) = 1"
      and mm: "node_input matmul = [x, w] \<or> node_input matmul = [w, x]"
      and x: "get_initializer model x = None"
      and w: "get_initializer model w = Some tw" "well_formed_tensor tw" "length (dims tw) = 2"
      and out: "node_output nd = out0 # outs"
      and safe: "is_safe_to_fuse_nodes model [nd, matmul] [out0] i2n o2n"
  shows "fuse model nd i2n o2n self =
           (self\<lparr>nodes_to_remove := nodes_to_remove self @ [nd, matmul],
                 nodes_to_add := nodes_to_add self @
                   [\<lparr>op_type = ''GemmFastGelu'', node_input = [x, w, b],
                     node_output = node_output nd,
                     name = create_node_name model ''GemmFastGelu'',
                     domain = ''com.microsoft'', attribute = []\<rparr>],
                 node_name_to_graph_name :=
                   (node_name_to_graph_name self)
                     (create_node_name model ''GemmFastGelu'' \<mapsto> this_graph_name self)\<rparr>,
            None)"
proof -
  obtain bs where bs: "to_array tb = Inr \<lparr>shape = dims tb, elems = bs\<rparr>"
    using to_array_well_formed [OF b(2)] by blast
  obtain ws where ws: "to_array tw = Inr \<lparr>shape = dims tw, elems = ws\<rparr>"
    using to_array_well_formed [OF w(2)] by blast
  have bias: "first_initializer (get_initializer model) (node_input nd) 0
                = Inr (1, Some \<lparr>shape = dims tb, elems = bs\<rparr>)"
    using y b(1) bs by (simp add: nd_in)
  from mm show ?thesis
  proof
    assume *: "node_input matmul = [x, w]"
    have "first_initializer (get_initializer model) (node_input matmul) 0
            = Inr (1, Some \<lparr>shape = dims tw, elems = ws\<rparr>)"
      using x w(1) ws by (simp add: *)
    then show ?thesis using m bias nd_in b(3) w(3) out safe *
      by (simp add: fuse_def stage_fused_def py_index_def make_node_def)
  next
    assume *: "node_input matmul = [w, x]"
    have "first_initializer (get_initializer model) (node_input matmul) 0
            = Inr (0, Some \<lparr>shape = dims tw, elems = ws\<rparr>)"
      using x w(1) ws by (simp add: *)
    then show ?thesis using m bias nd_in b(3) w(3) out safe *
      by (simp add: fuse_def stage_fused_def py_index_def make_node_def)
  qed
qed

theorem fuse_stages_gemm_fast_gelu_witness:
  "fuse (ex_model True [2, 2]) ex_gelu Map.empty Map.empty ex_fusion =
     (ex_fusion\<lparr>nodes_to_remove := [ex_gelu, ex_matmul],
                 nodes_to_add :=
                   [\<lparr>op_type = ''GemmFastGelu'', node_input = [''X'', ''W'', ''B''],
                     node_output = [''Z''], name = ''GemmFastGelu_0'',
                     domain = ''com.microsoft'', attribute = []\<rparr>],
                 node_name_to_graph_name := [''GemmFastGelu_0'' \<mapsto> ''main'']\<rparr>,
      None)"
  using fuse_stages_gemm_fast_gelu
          [of "ex_model True [2, 2]" ex_gelu ex_matmul "''Y''" "''B''"
              "\<lparr>dims = [2], data_type = 1, data = Some [0, 0]\<rparr>" "''X''" "''W''"
              "\<lparr>dims = [2, 2], data_type = 1, data = Some [1, 0, 0, 1]\<rparr>" "''Z''" "[]"
              Map.empty Map.empty ex_fusion]
  by (simp add: ex_model_def ex_gelu_def ex_matmul_def ex_fusion_def well_formed_tensor_def)

text \<open>
  C2. When the matcher returns the MatMul and the safety check, called on the trigger and
  the MatMul with the trigger's first output as the only surviving output, returns false,
  \<open>fuse\<close> ends with the fusion state as it was: nothing is staged for removal or
  addition. It ends by returning, with no exception, when the initializers among the
  inputs of the two nodes are well-formed tensors, so that reading them does not raise
  before the safety check is reached.
\<close>

theorem fuse_unsafe_stages_nothing:
  assumes m: "match_parent_path model nd [''MatMul''] [0] = Some [Some matmul]"
      and out: "node_output nd = out0 # outs"
      and unsafe: "\<not> is_safe_to_fuse_nodes model [nd, matmul] [out0] i2n o2n"
  shows "fst (fuse model nd i2n o2n self) = self
       \<and> ((\<forall>x\<in>set (node_input matmul @ node_input nd).
              \<forall>t. get_initializer model x = Some t \<longrightarrow> well_formed_tensor t)
            \<longrightarrow> fuse model nd i2n o2n self = (self, None))"
proof (intro conjI impI)
  show "fst (fuse model nd i2n o2n self) = self"
    using m out unsafe by (rule fuse_unsafe_keeps_state)
next
  assume wf: "\<forall>x\<in>set (node_input matmul @ node_input nd).
                \<forall>t. get_initializer model x = Some t \<longrightarrow> well_formed_tensor t"
  obtain rw where rw: "first_initializer (get_initializer model) (node_input matmul) 0 = Inr rw"
    using first_initializer_returns [of "node_input matmul" "get_initializer model" 0] wf by auto
  obtain rb where rb: "first_initializer (get_initializer model) (node_input nd) 0 = Inr rb"
    using first_initializer_returns [of "node_input nd" "get_initializer model" 0] wf by auto
  show "fuse model nd i2n o2n self = (self, None)"
    using m out unsafe rw rb
    by (simp add: fuse_def py_index_0 Let_def split: prod.splits option.splits)
qed

theorem fuse_unsafe_stages_nothing_witness:
  "fst (fuse (ex_model False [2, 2]) ex_gelu Map.empty Map.empty ex_fusion) = ex_fusion
   \<and> fuse (ex_model False [2, 2]) ex_gelu Map.empty Map.empty ex_fusion = (ex_fusion, None)"
  using fuse_unsafe_stages_nothing
          [of "ex_model False [2, 2]" ex_gelu ex_matmul "''Z''" "[]" Map.empty Map.empty ex_fusion]
  by (simp add: ex_model_def ex_gelu_def ex_matmul_def well_formed_tensor_def)

text \<open>
  C3. The claim is that \<open>fuse\<close> returns normally when the matcher finds no match. The
  matcher's no-match value is \<open>None\<close>, which is what the guard \<open>if matmul is None\<close> on
  line 26 looks for; but line 25 unpacks the matcher's result as a one-element list
  before the guard, and unpacking \<open>None\<close> raises TypeError. Nothing is staged, but the
  call does not return normally.
\<close>

theorem fuse_no_match_raises:
  assumes "match_parent_path model nd [''MatMul''] [0] = None"
  shows "fuse model nd i2n o2n self = (self, Some TypeError)"
  using assms by (simp add: fuse_def)

theorem fuse_no_match_raises_witness:
  "fuse (ex_model True [2, 2]) lone_gelu Map.empty Map.empty ex_fusion
     = (ex_fusion, Some TypeError)"
  using fuse_no_match_raises [of "ex_model True [2, 2]" lone_gelu Map.empty Map.empty ex_fusion]
  by (simp add: ex_model_def ex_gelu_def lone_gelu_def)

text \<open>
  C6. When the matcher returns the MatMul, \<open>fuse\<close> stages nothing in each of these cases:
  no input of the MatMul is an initializer; the first input of the MatMul that is an
  initializer has a rank other than 2; the trigger has exactly two inputs (a bias
  operand) and none of them is an initializer, or the first of them that is an
  initializer has a rank other than 1. It then returns with no exception, provided the
  initializers among the inputs of the two nodes are well-formed tensors (reading a
  malformed one raises before its rank is tested).
\<close>

theorem fuse_abstains_on_constants:
  assumes m: "match_parent_path model nd [''MatMul''] [0] = Some [Some matmul]"
      and c: "(\<forall>x\<in>set (node_input matmul). get_initializer model x = None)
            \<or> (\<exists>pre c post t. node_input matmul = pre @ c # post
                  \<and> (\<forall>x\<in>set pre. get_initializer model x = None)
                  \<and> get_initializer model c = Some t \<and> length (dims t) \<noteq> 2)
            \<or> (length (node_input nd) = 2
                  \<and> ((\<forall>x\<in>set (node_input nd). get_initializer model x = None)
                     \<or> (\<exists>pre c post t. node_input nd = pre @ c # post
                          \<and> (\<forall>x\<in>set pre. get_initializer model x = None)
                          \<and> get_initializer model c = Some t \<and> length (dims t) \<noteq> 1)))"
  shows "fst (fuse model nd i2n o2n self) = self
       \<and> ((\<forall>x\<in>set (node_input matmul @ node_input nd).
              \<forall>t. get_initializer model x = Some t \<longrightarrow> well_formed_tensor t)
            \<longrightarrow> fuse model nd i2n o2n self = (self, None))"
proof -
  let ?gi = "get_initializer model"
  let ?wf = "\<forall>x\<in>set (node_input matmul @ node_input nd).
               \<forall>t. ?gi x = Some t \<longrightarrow> well_formed_tensor t"
  let ?r = "fuse model nd i2n o2n self"
  have shape_dims: "to_array t = Inr a \<Longrightarrow> shape a = dims t" for t :: "'a tensor" and a
    by (auto simp: to_array_def split: if_splits option.splits)
  have readable: "\<exists>a. to_array t = Inr a" if "well_formed_tensor t" for t :: "'a tensor"
    using to_array_well_formed [OF that] by blast
  have weight: "?wf \<Longrightarrow> \<exists>rw. first_initializer ?gi (node_input matmul) 0 = Inr rw"
    using first_initializer_returns [of "node_input matmul" ?gi 0] by auto
  consider (A) "\<forall>x\<in>set (node_input matmul). ?gi x = None"
    | (B) pre c post t where "node_input matmul = pre @ c # post"
        "\<forall>x\<in>set pre. ?gi x = None" "?gi c = Some t" "length (dims t) \<noteq> 2"
    | (C1) "length (node_input nd) = 2" "\<forall>x\<in>set (node_input nd). ?gi x = None"
    | (C2) pre c post t where "length (node_input nd) = 2" "node_input nd = pre @ c # post"
        "\<forall>x\<in>set pre. ?gi x = None" "?gi c = Some t" "length (dims t) \<noteq> 1"
    using c by blast
  then have res: "?r = (self, None) \<or> (\<not> ?wf \<and> (\<exists>e. ?r = (self, Some e)))"
  proof cases
    case A
    then show ?thesis using m by (simp add: fuse_def first_initializer_none)
  next
    case B
    have fi: "first_initializer ?gi (node_input matmul) 0
            = (case to_array t of Inl e \<Rightarrow> Inl e | Inr a \<Rightarrow> Inr (0 + int (length pre), Some a))"
      unfolding B(1) using B(2,3) by (rule first_initializer_at)
    show ?thesis
    proof (cases "to_array t")
      case (Inl e)
      have "\<not> well_formed_tensor t" using Inl readable [of t] by auto
      then have "\<not> ?wf" using B(1,3) by auto
      moreover have "?r = (self, Some e)" using m fi Inl by (simp add: fuse_def)
      ultimately show ?thesis by blast
    next
      case (Inr a)
      then show ?thesis using m fi B(4) shape_dims [of t a] by (simp add: fuse_def)
    qed
  next
    case C1
    have fb: "first_initializer ?gi (node_input nd) 0 = Inr (-1, None)"
      using C1(2) by (rule first_initializer_none)
    show ?thesis
    proof (cases "first_initializer ?gi (node_input matmul) 0")
      case (Inl e)
      then have "\<not> ?wf" using weight by auto
      moreover have "?r = (self, Some e)" using m Inl by (simp add: fuse_def)
      ultimately show ?thesis by blast
    next
      case (Inr rw)
      then show ?thesis using m fb C1(1)
        by (simp add: fuse_def split: prod.splits option.splits)
    qed
  next
    case C2
    have fb: "first_initializer ?gi (node_input nd) 0
            = (case to_array t of Inl e \<Rightarrow> Inl e | Inr a \<Rightarrow> Inr (0 + int (length pre), Some a))"
      unfolding C2(2) using C2(3,4) by (rule first_initializer_at)
    show ?thesis
    proof (cases "first_initializer ?gi (node_input matmul) 0")
      case (Inl e)
      then have "\<not> ?wf" using weight by auto
      moreover have "?r = (self, Some e)" using m Inl by (simp add: fuse_def)
      ultimately show ?thesis by blast
    next
      case rw: (Inr rw)
      show ?thesis
      proof (cases "to_array t")
        case (Inl e)
        have "\<not> well_formed_tensor t" using Inl readable [of t] by auto
        then have nwf: "\<not> ?wf" using C2(2,4) by auto
        have "?r = (self, None) \<or> ?r = (self, Some e)"
          using m rw fb Inl C2(1) by (simp add: fuse_def split: prod.splits option.splits)
        then show ?thesis using nwf by blast
      next
        case (Inr a)
        then show ?thesis using m rw fb C2(1,5) shape_dims [of t a]
          by (simp add: fuse_def split: prod.splits option.splits)
      qed
    qed
  qed
  then show ?thesis by auto
qed

theorem fuse_abstains_on_constants_witness:
  "get_initializer (ex_model True [4]) ''X'' = None
   \<and> get_initializer (ex_model True [4]) ''W''
       = Some \<lparr>dims = [4], data_type = 1, data = Some [1, 0, 0, 1]\<rparr>
   \<and> fuse (ex_model True [4]) ex_gelu Map.empty Map.empty ex_fusion = (ex_fusion, None)"
proof -
  have "\<exists>pre c post t. node_input ex_matmul = pre @ c # post
          \<and> (\<forall>x\<in>set pre. get_initializer (ex_model True [4]) x = None)
          \<and> get_initializer (ex_model True [4]) c = Some t \<and> length (dims t) \<noteq> 2"
    by (rule exI [of _ "[''X'']"], rule exI [of _ "''W''"], rule exI [of _ "[]"],
        rule exI [of _ "\<lparr>dims = [4], data_type = 1, data = Some [1, 0, 0, 1]\<rparr>"])
       (simp add: ex_model_def ex_matmul_def)
  then show ?thesis
    using fuse_abstains_on_constants
            [of "ex_model True [4]" ex_gelu ex_matmul Map.empty Map.empty ex_fusion]
    by (simp add: ex_model_def ex_gelu_def ex_matmul_def well_formed_tensor_def)
qed

section \<open>FusionUtils.check_qdq_node_for_fusion\<close>

text \<open>
  \<open>zero_point != 0\<close> on an array compares element by element, and \<open>or\<close> then takes the
  truth value of the resulting array: that of its element when it has exactly one, an
  exception (ValueError, "the truth value of an array with more than one element is
  ambiguous") when it has more, and false, with a deprecation warning, when it has none.
\<close>

definition array_ne_zero :: "'a::zero ndarray \<Rightarrow> bool list" where
  "array_ne_zero a = map (\<lambda>v. v \<noteq> 0) (elems a)"

fun array_truth :: "bool list \<Rightarrow> py_error + bool" where
  "array_truth [] = Inr False"
| "array_truth [b] = Inr b"
| "array_truth _ = Inl ValueError"

text \<open>
  The function's first statement only logs, so the log is part of the result here: the
  messages passed to \<open>logger.debug\<close>, then the exception raised or the value returned.
\<close>

definition check_qdq_node_for_fusion ::
  "node \<Rightarrow> 'a::zero onnx_model \<Rightarrow> string list \<times> (py_error + bool)" where
  "check_qdq_node_for_fusion nd model =
     (if \<not> (op_type nd = ''QuantizeLinear'' \<or> op_type nd = ''DequantizeLinear'')
      then [''Provided node is not a Q/DQ node. Op Type: '' @ op_type nd] else [],
      case py_index (node_input nd) 1 of
        Inl e \<Rightarrow> Inl e
      | Inr scale_name \<Rightarrow>
          if get_constant_value model scale_name = None then Inr False
          else if length (node_input nd) \<noteq> 3 then Inr True
          else
            (case py_index (node_input nd) 2 of
               Inl e \<Rightarrow> Inl e
             | Inr zp_name \<Rightarrow>
                 (case get_constant_value model zp_name of
                    None \<Rightarrow> Inr False
                  | Some zero_point \<Rightarrow>
                      (case array_truth (array_ne_zero zero_point) of
                         Inl e \<Rightarrow> Inl e
                       | Inr ne \<Rightarrow> if ne then Inr False else Inr True))))"

subsection \<open>Concrete nodes: per-channel quantization\<close>

text \<open>
  A model whose constants \<open>scale\<close> and \<open>zp\<close> are vectors of two elements (per-channel
  quantization), a DequantizeLinear node over chosen inputs, and a Relu node.
\<close>

definition dq_node :: "string list \<Rightarrow> node" where
  "dq_node ins = \<lparr>op_type = ''DequantizeLinear'', node_input = ins,
                   node_output = [''dq_out''], name = ''dq_0'', domain = [], attribute = []\<rparr>"

definition relu_node :: node where
  "relu_node = \<lparr>op_type = ''Relu'', node_input = [''x'', ''scale''],
                 node_output = [''relu_out''], name = ''relu_0'', domain = [], attribute = []\<rparr>"

definition qdq_model :: "rat onnx_model" where
  "qdq_model =
     \<lparr>match_parent_path = (\<lambda>n ops idx. None),
      get_initializer = (\<lambda>nm. None),
      is_safe_to_fuse_nodes = (\<lambda>ns outs i2n o2n. False),
      create_node_name = (\<lambda>prefix. prefix),
      get_constant_value =
        map_of [(''scale'', \<lparr>shape = [2], elems = [1 / 10, 1 / 5]\<rparr>),
                (''zp'', \<lparr>shape = [2], elems = [0, 0]\<rparr>)]\<rparr>"

subsection \<open>What the check accepts\<close>

text \<open>
  C4. The claim (and the function's docstring, condition (1): per-tensor quantization
  only) says that a node with a per-channel scale or zero point is never eligible. The
  code never looks at the shape of the scale: a node with two inputs whose scale is any
  constant, of whatever shape, is accepted. A constant zero point of two or more elements
  is not rejected with \<open>False\<close> either: taking the truth value of \<open>zero_point != 0\<close>
  raises ValueError.
\<close>

theorem check_qdq_accepts_per_channel:
  "(node_input nd = [x, s] \<and> get_constant_value model s = Some scale
      \<longrightarrow> snd (check_qdq_node_for_fusion nd model) = Inr True)
   \<and> (node_input nd = [x, s, z] \<and> get_constant_value model s = Some scale
        \<and> get_constant_value model z = Some zero_point \<and> 2 \<le> length (elems zero_point)
      \<longrightarrow> snd (check_qdq_node_for_fusion nd model) = Inl ValueError)"
proof -
  have "array_truth (array_ne_zero zero_point) = Inl ValueError"
    if len: "2 \<le> length (elems zero_point)"
  proof -
    have "\<exists>a b r. elems zero_point = a # b # r"
      using len by (auto simp: numeral_2_eq_2 Suc_le_length_iff)
    then show ?thesis by (auto simp: array_ne_zero_def)
  qed
  then show ?thesis
    by (auto simp: check_qdq_node_for_fusion_def py_index_def)
qed

theorem check_qdq_accepts_per_channel_witness:
  "snd (check_qdq_node_for_fusion (dq_node [''x'', ''scale'']) qdq_model) = Inr True
   \<and> snd (check_qdq_node_for_fusion (dq_node [''x'', ''scale'', ''zp'']) qdq_model)
       = Inl ValueError"
  using check_qdq_accepts_per_channel
          [of "dq_node [''x'', ''scale'']" "''x''" "''scale''" qdq_model
              "\<lparr>shape = [2], elems = [1 / 10, 1 / 5]\<rparr>"]
        check_qdq_accepts_per_channel
          [of "dq_node [''x'', ''scale'', ''zp'']" "''x''" "''scale''" qdq_model
              "\<lparr>shape = [2], elems = [1 / 10, 1 / 5]\<rparr>" "''zp''"
              "\<lparr>shape = [2], elems = [0, 0]\<rparr>"]
  by (simp add: dq_node_def qdq_model_def)

text \<open>
  C10. The operator type decides nothing: replacing a node's operator type by any other
  leaves the exception raised or value returned as it was (only the log differs), so a
  node that is neither QuantizeLinear nor DequantizeLinear is judged as a genuine Q/DQ
  node with the same inputs is. In particular a node of any operator type with exactly
  two inputs, the second of which resolves to a constant, yields \<open>True\<close>.
\<close>

theorem check_qdq_ignores_op_type:
  "snd (check_qdq_node_for_fusion (nd\<lparr>op_type := t\<rparr>) model)
     = snd (check_qdq_node_for_fusion nd model)
   \<and> (length (node_input nd) = 2
        \<and> get_constant_value model (node_input nd ! 1) = Some c
        \<longrightarrow> snd (check_qdq_node_for_fusion (nd\<lparr>op_type := t\<rparr>) model) = Inr True)"
  by (auto simp: check_qdq_node_for_fusion_def py_index_def)

theorem check_qdq_ignores_op_type_witness:
  "snd (check_qdq_node_for_fusion relu_node qdq_model)
     = snd (check_qdq_node_for_fusion (relu_node\<lparr>op_type := ''QuantizeLinear''\<rparr>) qdq_model)
   \<and> snd (check_qdq_node_for_fusion relu_node qdq_model) = Inr True
   \<and> fst (check_qdq_node_for_fusion relu_node qdq_model)
       = [''Provided node is not a Q/DQ node. Op Type: Relu'']"
proof -
  let ?q = "relu_node\<lparr>op_type := ''QuantizeLinear''\<rparr>"
  let ?c = "\<lparr>shape = [2], elems = [1 / 10, 1 / 5 :: rat]\<rparr>"
  have same: "?q\<lparr>op_type := ''Relu''\<rparr> = relu_node"
    by (simp add: relu_node_def)
  have hyp: "length (node_input ?q) = 2 \<and> get_constant_value qdq_model (node_input ?q ! 1) = Some ?c"
    by (simp add: relu_node_def qdq_model_def)
  note t = check_qdq_ignores_op_type
             [where nd = ?q and t = "''Relu''" and model = qdq_model and c = ?c]
  have e1: "snd (check_qdq_node_for_fusion relu_node qdq_model)
              = snd (check_qdq_node_for_fusion ?q qdq_model)"
    using t unfolding same by (rule conjunct1)
  have e2: "snd (check_qdq_node_for_fusion relu_node qdq_model) = Inr True"
    using t hyp unfolding same by blast
  have e3: "fst (check_qdq_node_for_fusion relu_node qdq_model)
              = [''Provided node is not a Q/DQ node. Op Type: Relu'']"
    by (simp add: check_qdq_node_for_fusion_def relu_node_def)
  from e1 e2 e3 show ?thesis by blast
qed

section \<open>FusionUtils.check_node_attribute\<close>

text \<open>
  \<open>==\<close> on two floats is equality of their values, except that NaN equals nothing,
  itself included. Python compares an int with a float by their exact values.
\<close>

definition float_eq :: "py_float \<Rightarrow> py_float \<Rightarrow> bool" where
  "float_eq x y = (x \<noteq> NaN \<and> x = y)"


text \<open>
  \<open>numpy.array_equal(a1, a2, equal_nan)\<close> turns both arguments into arrays and compares
  them element by element when they have the same length. A list without a float
  becomes an array of 64-bit integers, and two such arrays are compared as integers. As
  soon as one of the two holds a float, the comparison is made in float64: an integer is
  converted to the nearest float64, ties to even, which changes it when it needs more
  than 53 bits. Two NaN count as equal only when \<open>equal_nan\<close> is set.
\<close>

definition float64_of_int :: "int \<Rightarrow> py_float" where
  "float64_of_int n =
     (if \<bar>n\<bar> \<le> 2 ^ 53 then Fin (of_int n)
      else
        (let e = nat (bitlen \<bar>n\<bar>) - 53;
             m = \<bar>n\<bar> div 2 ^ e;
             r = \<bar>n\<bar> mod 2 ^ e;
             h = 2 ^ (e - 1);
             m' = (if r > h \<or> (r = h \<and> odd m) then m + 1 else m)
         in Fin (of_int (sgn n * m' * 2 ^ e))))"

fun is_float :: "np_num \<Rightarrow> bool" where
  "is_float (NFloat x) = True"
| "is_float (NInt w) = False"

fun as_float64 :: "np_num \<Rightarrow> py_float" where
  "as_float64 (NInt w) = float64_of_int (sint w)"
| "as_float64 (NFloat x) = x"

definition array_equal :: "np_num list \<Rightarrow> np_num list \<Rightarrow> bool \<Rightarrow> bool" where
  "array_equal a1 a2 equal_nan =
     (if list_ex is_float a1 \<or> list_ex is_float a2
      then list_all2 (\<lambda>x y. float_eq (as_float64 x) (as_float64 y)
                            \<or> (equal_nan \<and> as_float64 x = NaN \<and> as_float64 y = NaN)) a1 a2
      else list_all2 (=) a1 a2)"










subsection \<open>A node with two attributes\<close>


subsection \<open>The check is exact equality\<close>









text \<open>
  Beyond 53 bits the comparison is not exact: the list \<open>[2^53 + 1]\<close> of an integer is
  found equal to the list \<open>[2^53]\<close> of a float.
\<close>

lemma array_equal_rounds:
  "array_equal [NInt (2 ^ 53 + 1)] [NFloat (Fin (2 ^ 53))] False"
proof -
  have s: "sint (2 ^ 53 + 1 :: 64 word) = 2 ^ 53 + 1"
    by simp
  have "bitlen (2 ^ 53 + 1) = 54"
    using bitlen_twopow_add_eq [of 1 53] by simp
  then have b: "nat (bitlen \<bar>2 ^ 53 + 1\<bar>) - 53 = 1"
    by simp
  have "float64_of_int (2 ^ 53 + 1) = Fin (2 ^ 53)"
    unfolding float64_of_int_def Let_def b by simp
  then show ?thesis
    unfolding array_equal_def by (simp add: float_eq_def s)
qed

section \<open>The graph: node objects and their order\<close>

text \<open>
  The cleanup passes of \<open>FusionUtils\<close> rewrite the nodes of \<open>self.model\<close> in place while
  they hold references to them, so the nodes are objects in a store: \<open>heap\<close> maps the
  address of each \<open>NodeProto\<close> to its current value, and \<open>nodes\<close> (what \<open>model.nodes()\<close>
  returns) lists the addresses of the nodes of the graph in order. A node taken out of the
  graph stays in the store. \<open>get_graphs_input_names\<close> and \<open>get_graphs_output_names\<close> are
  the names of the graph's inputs and outputs.
\<close>

record onnx_graph =
  heap :: "nat \<Rightarrow> node"
  nodes :: "nat list"
  get_graphs_input_names :: "string list"
  get_graphs_output_names :: "string list"

text \<open>
  Modelled from the spec: the methods of \<open>OnnxModel\<close> that the passes call
  (\<open>onnx_model.py\<close> is not among the sources). The spec's Graph keeps "a mapping from
  tensor name to producing Node" and offers \<open>get_producer\<close>, \<open>remove_node(Node)\<close>,
  \<open>replace_all_inputs(old_name, new_name)\<close> and \<open>replace_all_outputs(old_name, new_name)\<close>.
  The producer of a name is the node of the graph that lists it among its outputs (the
  last one in graph order, should there be several); an empty name, the empty slot of an
  optional input, has no producer. \<open>get_parent g r i\<close> is the producer of input \<open>i\<close> of
  node \<open>r\<close>, and \<open>None\<close> when the node has no such input. The two renamings go through
  every node of the graph and replace a name wherever it stands among the inputs (the
  outputs); \<open>remove_node\<close> takes the node out of the graph's list.
\<close>

definition output_name_to_node :: "onnx_graph \<Rightarrow> string \<Rightarrow> nat option" where
  \<comment> \<open>Modelled from the spec: \<open>OnnxModel.output_name_to_node\<close>, the Graph's "mapping from
      tensor name to producing Node".\<close>
  "output_name_to_node g nm =
     (if nm = [] then None
      else find (\<lambda>a. nm \<in> set (node_output (heap g a))) (rev (nodes g)))"

definition get_parent :: "onnx_graph \<Rightarrow> nat \<Rightarrow> nat \<Rightarrow> nat option" where
  \<comment> \<open>Modelled from the spec: \<open>OnnxModel.get_parent\<close>, the spec's \<open>get_producer\<close>.\<close>
  "get_parent g r i =
     (if length (node_input (heap g r)) \<le> i then None
      else output_name_to_node g (node_input (heap g r) ! i))"

definition replace_name :: "string \<Rightarrow> string \<Rightarrow> string list \<Rightarrow> string list" where
  \<comment> \<open>A list of names with every occurrence of one name replaced by another.\<close>
  "replace_name old_name new_name names = map (\<lambda>n. if n = old_name then new_name else n) names"

definition replace_input_of_all_nodes :: "onnx_graph \<Rightarrow> string \<Rightarrow> string \<Rightarrow> onnx_graph" where
  \<comment> \<open>Modelled from the spec: \<open>OnnxModel.replace_input_of_all_nodes\<close>, the spec's
      \<open>replace_all_inputs(old_name, new_name)\<close>.\<close>
  "replace_input_of_all_nodes g old_name new_name =
     g\<lparr>heap := (\<lambda>a. if a \<in> set (nodes g)
                     then (heap g a)\<lparr>node_input := replace_name old_name new_name (node_input (heap g a))\<rparr>
                     else heap g a)\<rparr>"

definition replace_output_of_all_nodes :: "onnx_graph \<Rightarrow> string \<Rightarrow> string \<Rightarrow> onnx_graph" where
  \<comment> \<open>Modelled from the spec: \<open>OnnxModel.replace_output_of_all_nodes\<close>, the spec's
      \<open>replace_all_outputs(old_name, new_name)\<close>.\<close>
  "replace_output_of_all_nodes g old_name new_name =
     g\<lparr>heap := (\<lambda>a. if a \<in> set (nodes g)
                     then (heap g a)\<lparr>node_output := replace_name old_name new_name (node_output (heap g a))\<rparr>
                     else heap g a)\<rparr>"

definition remove_node :: "onnx_graph \<Rightarrow> nat \<Rightarrow> onnx_graph" where
  \<comment> \<open>Modelled from the spec: \<open>OnnxModel.remove_node\<close>, the spec's \<open>remove_node(Node)\<close>.\<close>
  "remove_node g r = g\<lparr>nodes := remove1 r (nodes g)\<rparr>"

section \<open>FusionUtils.remove_cascaded_cast_nodes\<close>

definition py_setitem :: "'a list \<Rightarrow> int \<Rightarrow> 'a \<Rightarrow> py_error + 'a list" where
  \<comment> \<open>The assignment \<open>xs[i] = v\<close>; it raises where the subscript \<open>xs[i]\<close> does.\<close>
  "py_setitem xs i v =
     (if 0 \<le> i \<and> i < int (length xs) then Inr (xs[nat i := v])
      else if i < 0 \<and> - i \<le> int (length xs) then Inr (xs[nat (int (length xs) + i) := v])
      else Inl IndexError)"

text \<open>
  One iteration of the loop over \<open>model.nodes()\<close> (lines 166-170) is \<open>cascaded_step\<close>: it
  returns the graph and whether the node was rewired, or the exception raised by
  \<open>parent.input[0]\<close> or by the assignment to \<open>node.input[0]\<close>. \<open>cascaded_loop\<close> runs the
  iterations with the counter \<open>removed_count\<close>; an exception ends the loop with the graph
  as the earlier iterations left it. \<open>prune_graph\<close> is a method of \<open>OnnxModel\<close> and a
  parameter here.
\<close>

definition cascaded_step :: "onnx_graph \<Rightarrow> nat \<Rightarrow> py_error + (onnx_graph \<times> bool)" where
  "cascaded_step g r =
     (if op_type (heap g r) = ''Cast'' then
        (case get_parent g r 0 of
           None \<Rightarrow> Inr (g, False)
         | Some parent \<Rightarrow>
             if op_type (heap g parent) = ''Cast'' then
               (case py_index (node_input (heap g parent)) 0 of
                  Inl e \<Rightarrow> Inl e
                | Inr x \<Rightarrow>
                    (case py_setitem (node_input (heap g r)) 0 x of
                       Inl e \<Rightarrow> Inl e
                     | Inr ins \<Rightarrow>
                         Inr (g\<lparr>heap := (heap g)(r := (heap g r)\<lparr>node_input := ins\<rparr>)\<rparr>, True)))
             else Inr (g, False))
      else Inr (g, False))"

fun cascaded_loop ::
  "nat list \<Rightarrow> onnx_graph \<Rightarrow> nat \<Rightarrow> (onnx_graph \<times> nat) \<times> py_error option" where
  "cascaded_loop [] g removed_count = ((g, removed_count), None)"
| "cascaded_loop (r # rs) g removed_count =
     (case cascaded_step g r of
        Inl e \<Rightarrow> ((g, removed_count), Some e)
      | Inr (g', rewired) \<Rightarrow>
          cascaded_loop rs g' (if rewired then removed_count + 1 else removed_count))"

definition remove_cascaded_cast_nodes ::
  "(onnx_graph \<Rightarrow> onnx_graph) \<Rightarrow> onnx_graph \<Rightarrow> onnx_graph \<times> py_error option" where
  "remove_cascaded_cast_nodes prune_graph g =
     (case cascaded_loop (nodes g) g 0 of
        ((g', removed_count), Some e) \<Rightarrow> (g', Some e)
      | ((g', removed_count), None) \<Rightarrow>
          (if removed_count > 0 then prune_graph g' else g', None))"

text \<open>
  A Cast node whose input-0 producer is itself a Cast node, in the spec's words; and the
  relation of a graph to one that differs from it at most in the names its nodes read.
\<close>

definition is_cascaded :: "onnx_graph \<Rightarrow> nat \<Rightarrow> bool" where
  "is_cascaded g r =
     (op_type (heap g r) = ''Cast'' \<and>
      (case get_parent g r 0 of None \<Rightarrow> False | Some p \<Rightarrow> op_type (heap g p) = ''Cast''))"

definition same_wiring :: "onnx_graph \<Rightarrow> onnx_graph \<Rightarrow> bool" where
  "same_wiring g0 g =
     (nodes g = nodes g0 \<and>
      (\<forall>a. op_type (heap g a) = op_type (heap g0 a)
           \<and> node_output (heap g a) = node_output (heap g0 a)
           \<and> length (node_input (heap g a)) = length (node_input (heap g0 a))))"

subsection \<open>A chain of three conversions\<close>

text \<open>
  \<open>in -> Relu -> A -> Cast -> t1 -> Cast -> t2 -> Cast -> t3\<close>, with the nodes at the
  addresses 10 to 13, in a chosen order.
\<close>

definition cast :: "string \<Rightarrow> string \<Rightarrow> string \<Rightarrow> node" where
  "cast nm i out = \<lparr>op_type = ''Cast'', node_input = [i], node_output = [out], name = nm, domain = [], attribute = []\<rparr>"

definition chain_heap :: "nat \<Rightarrow> node" where
  "chain_heap = (\<lambda>a. cast [] [] [])
     (10 := \<lparr>op_type = ''Relu'', node_input = [''in''], node_output = [''A''], name = ''relu'', domain = [], attribute = []\<rparr>,
      11 := cast ''c1'' ''A'' ''t1'',
      12 := cast ''c2'' ''t1'' ''t2'',
      13 := cast ''c3'' ''t2'' ''t3'')"

definition chain_graph :: "nat list \<Rightarrow> onnx_graph" where
  "chain_graph order = \<lparr>heap = chain_heap, nodes = order, get_graphs_input_names = [''in''], get_graphs_output_names = [''t3'']\<rparr>"

subsection \<open>What one run rewires\<close>

lemma same_wiring_refl: "same_wiring g g"
  by (simp add: same_wiring_def)

lemma same_wiring_producer:
  "same_wiring g0 g \<Longrightarrow> output_name_to_node g nm = output_name_to_node g0 nm"
  by (simp add: same_wiring_def output_name_to_node_def)

lemma same_wiring_parent:
  "same_wiring g0 g \<Longrightarrow> heap g r = heap g0 r \<Longrightarrow> get_parent g r i = get_parent g0 r i"
  by (simp add: get_parent_def same_wiring_producer)

lemma same_wiring_cascaded:
  "same_wiring g0 g \<Longrightarrow> heap g r = heap g0 r \<Longrightarrow> is_cascaded g r = is_cascaded g0 r"
  by (simp add: is_cascaded_def same_wiring_parent) (simp add: same_wiring_def split: option.splits)

lemma find_in_set: "find P xs = Some x \<Longrightarrow> x \<in> set xs"
  by (induction xs) (auto split: if_splits)

lemma get_parent_in_nodes: "get_parent g r i = Some p \<Longrightarrow> p \<in> set (nodes g)"
proof -
  assume "get_parent g r i = Some p"
  then obtain nm where "find (\<lambda>a. nm \<in> set (node_output (heap g a))) (rev (nodes g)) = Some p"
    by (auto simp: get_parent_def output_name_to_node_def split: if_splits)
  then have "p \<in> set (rev (nodes g))"
    by (rule find_in_set)
  then show ?thesis by simp
qed

lemma get_parent_has_input: "get_parent g r 0 = Some p \<Longrightarrow> node_input (heap g r) \<noteq> []"
  by (auto simp: get_parent_def split: if_splits)

lemma cascaded_step_skip: "\<not> is_cascaded g r \<Longrightarrow> cascaded_step g r = Inr (g, False)"
  by (auto simp: is_cascaded_def cascaded_step_def split: option.splits)

lemma cascaded_step_rewire:
  assumes "is_cascaded g r" "get_parent g r 0 = Some p" "py_index (node_input (heap g p)) 0 = Inr x"
  shows "cascaded_step g r =
           Inr (g\<lparr>heap := (heap g)(r := (heap g r)\<lparr>node_input := (node_input (heap g r))[0 := x]\<rparr>)\<rparr>,
                True)"
  using assms get_parent_has_input [of g r p]
  by (auto simp: is_cascaded_def cascaded_step_def py_setitem_def)

lemma py_index_0_nonempty: "xs \<noteq> [] \<Longrightarrow> \<exists>x. py_index xs 0 = Inr x"
  by (cases xs) (simp_all add: py_index_def)

lemma py_index_0_same_length:
  "length xs = length ys \<Longrightarrow> ys \<noteq> [] \<Longrightarrow> \<exists>x. py_index xs 0 = Inr x"
  by (cases xs) (simp_all add: py_index_def)

lemma same_wiring_update:
  "same_wiring g0 g \<Longrightarrow>
   same_wiring g0 (g\<lparr>heap := (heap g)(r := (heap g r)\<lparr>node_input := (node_input (heap g r))[0 := x]\<rparr>)\<rparr>)"
  by (simp add: same_wiring_def)

lemma cascaded_loop_post:
  assumes "distinct rs"
      and "same_wiring g0 g"
      and "\<forall>a\<in>set rs. heap g a = heap g0 a"
      and "\<forall>a\<in>set (nodes g0). op_type (heap g0 a) = ''Cast'' \<longrightarrow> node_input (heap g0 a) \<noteq> []"
  shows "\<exists>g'. cascaded_loop rs g c = ((g', c + length (filter (is_cascaded g0) rs)), None)
           \<and> same_wiring g0 g'
           \<and> (\<forall>a. a \<notin> set rs \<or> \<not> is_cascaded g0 a \<longrightarrow> heap g' a = heap g a)
           \<and> (\<forall>mid r post p.
                 rs = mid @ r # post \<and> is_cascaded g0 r \<and> get_parent g0 r 0 = Some p \<longrightarrow>
                 (\<exists>x. py_index (node_input (if p \<in> set mid \<or> p \<notin> set rs
                                               then heap g' p else heap g0 p)) 0 = Inr x
                      \<and> node_input (heap g' r) = (node_input (heap g0 r))[0 := x]))"
  using assms
proof (induction rs arbitrary: g c)
  case Nil
  then show ?case by simp
next
  case (Cons r0 rs)
  have r0: "heap g r0 = heap g0 r0" and r0_new: "r0 \<notin> set rs" and d: "distinct rs"
    using Cons.prems by simp_all
  have casc: "is_cascaded g r0 = is_cascaded g0 r0"
    using Cons.prems(2) r0 by (rule same_wiring_cascaded)
  have par: "get_parent g r0 0 = get_parent g0 r0 0"
    using Cons.prems(2) r0 by (rule same_wiring_parent)
  show ?case
  proof (cases "is_cascaded g0 r0")
    case False
    then have step: "cascaded_step g r0 = Inr (g, False)"
      using casc by (simp add: cascaded_step_skip)
    obtain g' where g':
      "cascaded_loop rs g c = ((g', c + length (filter (is_cascaded g0) rs)), None)"
      "same_wiring g0 g'" "\<forall>a. a \<notin> set rs \<or> \<not> is_cascaded g0 a \<longrightarrow> heap g' a = heap g a"
      "\<forall>mid r post p.
          rs = mid @ r # post \<and> is_cascaded g0 r \<and> get_parent g0 r 0 = Some p \<longrightarrow>
          (\<exists>x. py_index (node_input (if p \<in> set mid \<or> p \<notin> set rs
                                        then heap g' p else heap g0 p)) 0 = Inr x
               \<and> node_input (heap g' r) = (node_input (heap g0 r))[0 := x])"
      using Cons.IH [of g c] Cons.prems d by auto
    have post: "\<exists>x. py_index (node_input (if p \<in> set mid \<or> p \<notin> set (r0 # rs)
                                        then heap g' p else heap g0 p)) 0 = Inr x
               \<and> node_input (heap g' r) = (node_input (heap g0 r))[0 := x]"
      if h: "r0 # rs = mid @ r # post" "is_cascaded g0 r" "get_parent g0 r 0 = Some p"
      for mid r post p
    proof (cases mid)
      case Nil
      then show ?thesis using h False by simp
    next
      case (Cons m mid')
      then have m: "m = r0" and rs: "rs = mid' @ r # post" using h(1) by simp_all
      from g'(4) rs h(2,3) obtain x where
        x: "py_index (node_input (if p \<in> set mid' \<or> p \<notin> set rs
                                   then heap g' p else heap g0 p)) 0 = Inr x"
           "node_input (heap g' r) = (node_input (heap g0 r))[0 := x]"
        by blast
      have "(p \<in> set mid \<or> p \<notin> set (r0 # rs)) = (p \<in> set mid' \<or> p \<notin> set rs)"
        using Cons m r0_new by auto
      then show ?thesis using x by auto
    qed
    show ?thesis
      apply (rule exI [of _ g'])
      using step g'(1,2,3) False post by auto
  next
    case True
    then obtain p0 where p0: "get_parent g0 r0 0 = Some p0" "op_type (heap g0 p0) = ''Cast''"
      by (auto simp: is_cascaded_def split: option.splits)
    have p0_in: "p0 \<in> set (nodes g0)" using p0(1) by (rule get_parent_in_nodes)
    have "node_input (heap g0 p0) \<noteq> []" using Cons.prems(4) p0_in p0(2) by blast
    moreover have "length (node_input (heap g p0)) = length (node_input (heap g0 p0))"
      using Cons.prems(2) by (simp add: same_wiring_def)
    ultimately obtain x0 where x0: "py_index (node_input (heap g p0)) 0 = Inr x0"
      using py_index_0_same_length by blast
    define g1 where
      "g1 = g\<lparr>heap := (heap g)(r0 := (heap g r0)\<lparr>node_input := (node_input (heap g r0))[0 := x0]\<rparr>)\<rparr>"
    have step: "cascaded_step g r0 = Inr (g1, True)"
      unfolding g1_def using True casc p0(1) par x0 by (simp add: cascaded_step_rewire)
    have w1: "same_wiring g0 g1"
      unfolding g1_def using Cons.prems(2) by (rule same_wiring_update)
    have u1: "\<forall>a\<in>set rs. heap g1 a = heap g0 a"
      using Cons.prems(3) r0_new by (auto simp: g1_def)
    obtain g' where g':
      "cascaded_loop rs g1 (c + 1) = ((g', c + 1 + length (filter (is_cascaded g0) rs)), None)"
      "same_wiring g0 g'" "\<forall>a. a \<notin> set rs \<or> \<not> is_cascaded g0 a \<longrightarrow> heap g' a = heap g1 a"
      "\<forall>mid r post p.
          rs = mid @ r # post \<and> is_cascaded g0 r \<and> get_parent g0 r 0 = Some p \<longrightarrow>
          (\<exists>x. py_index (node_input (if p \<in> set mid \<or> p \<notin> set rs
                                        then heap g' p else heap g0 p)) 0 = Inr x
               \<and> node_input (heap g' r) = (node_input (heap g0 r))[0 := x])"
      using Cons.IH [of g1 "c + 1"] d w1 u1 Cons.prems(4) by auto
    have fr: "\<forall>a. a \<notin> set (r0 # rs) \<or> \<not> is_cascaded g0 a \<longrightarrow> heap g' a = heap g a"
      using g'(3) True by (auto simp: g1_def)
    have r0_final: "node_input (heap g' r0) = (node_input (heap g0 r0))[0 := x0]"
      using g'(3) r0_new r0 by (simp add: g1_def)
    have post: "\<exists>x. py_index (node_input (if p \<in> set mid \<or> p \<notin> set (r0 # rs)
                                        then heap g' p else heap g0 p)) 0 = Inr x
               \<and> node_input (heap g' r) = (node_input (heap g0 r))[0 := x]"
      if h: "r0 # rs = mid @ r # post" "is_cascaded g0 r" "get_parent g0 r 0 = Some p"
      for mid r post p
    proof (cases mid)
      case Nil
      then have r: "r = r0" and p: "p = p0" using h p0(1) by simp_all
      have "py_index (node_input (if p0 \<notin> set (r0 # rs) then heap g' p0 else heap g0 p0)) 0
              = Inr x0"
      proof (cases "p0 \<in> set (r0 # rs)")
        case True
        then have "heap g p0 = heap g0 p0" using Cons.prems(3) by blast
        then show ?thesis using True x0 by simp
      next
        case False
        then have "heap g' p0 = heap g p0" using fr by blast
        then show ?thesis using False x0 by simp
      qed
      then show ?thesis using Nil r p r0_final by auto
    next
      case (Cons m mid')
      then have m: "m = r0" and rs: "rs = mid' @ r # post" using h(1) by simp_all
      from g'(4) rs h(2,3) obtain x where
        x: "py_index (node_input (if p \<in> set mid' \<or> p \<notin> set rs
                                   then heap g' p else heap g0 p)) 0 = Inr x"
           "node_input (heap g' r) = (node_input (heap g0 r))[0 := x]"
        by blast
      have "(p \<in> set mid \<or> p \<notin> set (r0 # rs)) = (p \<in> set mid' \<or> p \<notin> set rs)"
        using Cons m r0_new by auto
      then show ?thesis using x by auto
    qed
    show ?thesis
      apply (rule exI [of _ g'])
      using step g'(1,2) fr True post by auto
  qed
qed

text \<open>
  C7. In a graph whose nodes are distinct objects and whose Cast nodes have an input, one
  run raises nothing. Let \<open>g'\<close> be the graph when the loop ends. Every Cast node \<open>r\<close> whose
  input-0 producer \<open>p\<close> in the graph before the run is a Cast node has its input 0 set to
  input 0 of \<open>p\<close>, as \<open>p\<close> stands when \<open>r\<close> is visited, and keeps its other inputs: when
  \<open>p\<close> precedes \<open>r\<close> in the graph's order (as in a topologically sorted graph) this is
  input 0 of \<open>p\<close> in \<open>g'\<close>, otherwise it is input 0 of \<open>p\<close> before the run. A node that is
  not such a Cast node is left as it was. \<open>removed_count\<close> is the number of such nodes,
  and \<open>prune_graph\<close> is applied, to \<open>g'\<close>, exactly when there is at least one; when there
  is none the result is \<open>g'\<close> whatever \<open>prune_graph\<close> is.
\<close>

theorem remove_cascaded_cast_nodes_rewires:
  assumes "distinct (nodes g)"
      and "\<forall>a\<in>set (nodes g). op_type (heap g a) = ''Cast'' \<longrightarrow> node_input (heap g a) \<noteq> []"
  shows "\<exists>g'. cascaded_loop (nodes g) g 0 = ((g', length (filter (is_cascaded g) (nodes g))), None)
           \<and> remove_cascaded_cast_nodes prune_graph g
               = (if \<exists>r\<in>set (nodes g). is_cascaded g r then prune_graph g' else g', None)
           \<and> (\<forall>r. \<not> is_cascaded g r \<longrightarrow> heap g' r = heap g r)
           \<and> (\<forall>before r after p.
                 nodes g = before @ r # after \<and> op_type (heap g r) = ''Cast''
                 \<and> get_parent g r 0 = Some p \<and> op_type (heap g p) = ''Cast'' \<longrightarrow>
                 (\<exists>x. py_index (node_input (if p \<in> set before then heap g' p else heap g p)) 0
                        = Inr x
                      \<and> node_input (heap g' r) = (node_input (heap g r))[0 := x]))"
proof -
  obtain g' where g':
    "cascaded_loop (nodes g) g 0 = ((g', 0 + length (filter (is_cascaded g) (nodes g))), None)"
    "\<forall>a. a \<notin> set (nodes g) \<or> \<not> is_cascaded g a \<longrightarrow> heap g' a = heap g a"
    "\<forall>mid r post p.
        nodes g = mid @ r # post \<and> is_cascaded g r \<and> get_parent g r 0 = Some p \<longrightarrow>
        (\<exists>x. py_index (node_input (if p \<in> set mid \<or> p \<notin> set (nodes g)
                                      then heap g' p else heap g p)) 0 = Inr x
             \<and> node_input (heap g' r) = (node_input (heap g r))[0 := x])"
    using cascaded_loop_post [of "nodes g" g g 0] assms same_wiring_refl [of g] by auto
  have count: "(0 < length (filter (is_cascaded g) (nodes g))) = (\<exists>r\<in>set (nodes g). is_cascaded g r)"
    by (auto simp: filter_empty_conv)
  have run: "remove_cascaded_cast_nodes prune_graph g
               = (if \<exists>r\<in>set (nodes g). is_cascaded g r then prune_graph g' else g', None)"
    using g'(1) count by (simp add: remove_cascaded_cast_nodes_def)
  have post: "\<exists>x. py_index (node_input (if p \<in> set before then heap g' p else heap g p)) 0 = Inr x
                 \<and> node_input (heap g' r) = (node_input (heap g r))[0 := x]"
    if h: "nodes g = before @ r # after" "op_type (heap g r) = ''Cast''"
          "get_parent g r 0 = Some p" "op_type (heap g p) = ''Cast''"
    for before r after p
  proof -
    have "is_cascaded g r" using h(2,3,4) by (simp add: is_cascaded_def)
    moreover have "p \<in> set (nodes g)" using h(3) by (rule get_parent_in_nodes)
    ultimately show ?thesis using g'(3) h(1,3) by fastforce
  qed
  show ?thesis
    apply (rule exI [of _ g'])
    using g'(1,2) run post by auto
qed

lemma chain_parent:
  "get_parent (chain_graph [10, 11, 12, 13]) 11 0 = Some 10"
  "get_parent (chain_graph [10, 11, 12, 13]) 12 0 = Some 11"
  "get_parent (chain_graph [10, 11, 12, 13]) 13 0 = Some 12"
  "get_parent (chain_graph [10, 11, 12, 13]) 10 0 = None"
  by (simp_all add: get_parent_def output_name_to_node_def chain_graph_def chain_heap_def cast_def)

lemma chain_cascaded:
  "\<not> is_cascaded (chain_graph [10, 11, 12, 13]) 10"
  "\<not> is_cascaded (chain_graph [10, 11, 12, 13]) 11"
  "is_cascaded (chain_graph [10, 11, 12, 13]) 12"
  "is_cascaded (chain_graph [10, 11, 12, 13]) 13"
  by (simp_all add: is_cascaded_def chain_parent)
     (simp_all add: chain_graph_def chain_heap_def cast_def)

theorem remove_cascaded_cast_nodes_rewires_witness:
  "distinct (nodes (chain_graph [10, 11, 12, 13]))
   \<and> (\<exists>g'. cascaded_loop (nodes (chain_graph [10, 11, 12, 13])) (chain_graph [10, 11, 12, 13]) 0
               = ((g', 2), None)
          \<and> remove_cascaded_cast_nodes (\<lambda>g. g\<lparr>nodes := [10, 13]\<rparr>) (chain_graph [10, 11, 12, 13])
               = (g'\<lparr>nodes := [10, 13]\<rparr>, None)
          \<and> node_input (heap g' 11) = [''A'']
          \<and> node_input (heap g' 12) = [''A'']
          \<and> node_input (heap g' 13) = [''A''])"
proof -
  let ?g = "chain_graph [10, 11, 12, 13]"
  have d: "distinct (nodes ?g)" by (simp add: chain_graph_def)
  have wf: "\<forall>a\<in>set (nodes ?g). op_type (heap ?g a) = ''Cast'' \<longrightarrow> node_input (heap ?g a) \<noteq> []"
    by (simp add: chain_graph_def chain_heap_def cast_def)
  have cnt: "length (filter (is_cascaded ?g) (nodes ?g)) = 2"
    using chain_cascaded by (simp add: chain_graph_def)
  have some: "\<exists>r\<in>set (nodes ?g). is_cascaded ?g r"
    using chain_cascaded(3) by (simp add: chain_graph_def)
  from remove_cascaded_cast_nodes_rewires [OF d wf, of "\<lambda>g. g\<lparr>nodes := [10, 13]\<rparr>"]
  obtain g' where g':
    "cascaded_loop (nodes ?g) ?g 0 = ((g', 2), None)"
    "remove_cascaded_cast_nodes (\<lambda>g. g\<lparr>nodes := [10, 13]\<rparr>) ?g = (g'\<lparr>nodes := [10, 13]\<rparr>, None)"
    "\<forall>r. \<not> is_cascaded ?g r \<longrightarrow> heap g' r = heap ?g r"
    "\<forall>before r after p.
        nodes ?g = before @ r # after \<and> op_type (heap ?g r) = ''Cast''
        \<and> get_parent ?g r 0 = Some p \<and> op_type (heap ?g p) = ''Cast'' \<longrightarrow>
        (\<exists>x. py_index (node_input (if p \<in> set before then heap g' p else heap ?g p)) 0 = Inr x
             \<and> node_input (heap g' r) = (node_input (heap ?g r))[0 := x])"
    unfolding cnt using some by auto
  have n1: "node_input (heap g' 11) = [''A'']"
    using g'(3) chain_cascaded(2) by (simp add: chain_graph_def chain_heap_def cast_def)
  have "nodes ?g = [10, 11] @ 12 # [13] \<and> op_type (heap ?g 12) = ''Cast''
        \<and> get_parent ?g 12 0 = Some 11 \<and> op_type (heap ?g 11) = ''Cast''"
    using chain_parent(2) by (simp add: chain_graph_def chain_heap_def cast_def)
  with g'(4) have "\<exists>x. py_index (node_input (if (11::nat) \<in> set [10, 11] then heap g' 11 else heap ?g 11)) 0 = Inr x
             \<and> node_input (heap g' 12) = (node_input (heap ?g 12))[0 := x]"
    by blast
  then have n2: "node_input (heap g' 12) = [''A'']"
    using n1 by (auto simp: py_index_def chain_graph_def chain_heap_def cast_def)
  have "nodes ?g = [10, 11, 12] @ 13 # [] \<and> op_type (heap ?g 13) = ''Cast''
        \<and> get_parent ?g 13 0 = Some 12 \<and> op_type (heap ?g 12) = ''Cast''"
    using chain_parent(3) by (simp add: chain_graph_def chain_heap_def cast_def)
  with g'(4) have "\<exists>x. py_index (node_input (if (12::nat) \<in> set [10, 11, 12] then heap g' 12 else heap ?g 12)) 0 = Inr x
             \<and> node_input (heap g' 13) = (node_input (heap ?g 13))[0 := x]"
    by blast
  then have n3: "node_input (heap g' 13) = [''A'']"
    using n2 by (auto simp: py_index_def chain_graph_def chain_heap_def cast_def)
  show ?thesis
    using d g'(1,2) n1 n2 n3 by blast
qed

text \<open>
  The order of the nodes matters. With the chain in reverse order the last conversion is
  visited before its producer is rewired, and takes the producer's input 0 as it was
  before the run; the producer is rewired after it.
\<close>

lemma chain_reverse_order:
  "\<exists>g'. remove_cascaded_cast_nodes (\<lambda>g. g) (chain_graph [13, 12, 11, 10]) = (g', None)
        \<and> node_input (heap g' 13) = [''t1''] \<and> node_input (heap g' 12) = [''A'']"
  by (simp add: remove_cascaded_cast_nodes_def chain_graph_def chain_heap_def cast_def
        cascaded_step_def get_parent_def output_name_to_node_def py_index_def py_setitem_def)

section \<open>FusionUtils.remove_useless_cast_nodes and remove_useless_reshape_nodes\<close>

text \<open>
  The shape inference is an oracle: \<open>infer_runtime_shape\<close> is a parameter that returns the
  helper object or \<open>None\<close>. Of the helper the passes read \<open>known_vi_\<close>, a dictionary from
  tensor names to value infos (here: to the \<open>elem_type\<close> of the value info, \<open>None\<close> when
  the field is not set), and \<open>get_edge_shape\<close>, which returns a list of extents (integers
  or symbolic names) or \<open>None\<close>.
\<close>

type_synonym edge_shape = "(int + string) list"

record shape_infer_helper =
  known_vi :: "string \<rightharpoonup> int option"
  get_edge_shape :: "string \<Rightarrow> edge_shape option"

text \<open>
  \<open>FusionUtils.get_dtype\<close> (lines 137-156); \<open>model_get_dtype\<close> stands for the method
  \<open>OnnxModel.get_dtype\<close>. A name missing from \<open>known_vi_\<close> raises KeyError.
\<close>

definition get_dtype ::
  "(string \<Rightarrow> int option) \<Rightarrow> shape_infer_helper option \<Rightarrow> string \<Rightarrow> py_error + int option" where
  "get_dtype model_get_dtype shape_infer input_or_output_name =
     (case model_get_dtype input_or_output_name of
        Some dtype \<Rightarrow> Inr (Some dtype)
      | None \<Rightarrow>
          (case shape_infer of
             None \<Rightarrow> Inr None
           | Some h \<Rightarrow>
               (case known_vi h input_or_output_name of
                  None \<Rightarrow> Inl KeyError
                | Some elem_type \<Rightarrow> Inr elem_type)))"

text \<open>
  Python's truth value of an optional integer (\<open>None\<close> and 0 are false) and of an optional
  list (\<open>None\<close> and the empty list are false).
\<close>

definition truthy_int :: "int option \<Rightarrow> bool" where
  "truthy_int v = (case v of None \<Rightarrow> False | Some n \<Rightarrow> n \<noteq> 0)"

definition truthy_list :: "'a list option \<Rightarrow> bool" where
  "truthy_list v = (case v of None \<Rightarrow> False | Some xs \<Rightarrow> xs \<noteq> [])"

text \<open>
  The test of the first loop of each pass on one node: whether the node is appended to
  \<open>nodes_to_remove\<close>, or the exception raised.
\<close>

definition cast_is_useless ::
  "(string \<Rightarrow> int option) \<Rightarrow> shape_infer_helper \<Rightarrow> onnx_graph \<Rightarrow> nat \<Rightarrow> py_error + bool" where
  "cast_is_useless model_get_dtype shape_infer g r =
     (if op_type (heap g r) = ''Cast'' then
        (case py_index (node_input (heap g r)) 0 of
           Inl e \<Rightarrow> Inl e
         | Inr in0 \<Rightarrow>
        (case get_dtype model_get_dtype (Some shape_infer) in0 of
           Inl e \<Rightarrow> Inl e
         | Inr input_dtype \<Rightarrow>
        (case py_index (node_output (heap g r)) 0 of
           Inl e \<Rightarrow> Inl e
         | Inr out0 \<Rightarrow>
        (case get_dtype model_get_dtype (Some shape_infer) out0 of
           Inl e \<Rightarrow> Inl e
         | Inr output_dtype \<Rightarrow> Inr (truthy_int input_dtype \<and> input_dtype = output_dtype)))))
      else Inr False)"

definition reshape_is_useless :: "shape_infer_helper \<Rightarrow> onnx_graph \<Rightarrow> nat \<Rightarrow> py_error + bool" where
  "reshape_is_useless shape_infer g r =
     (if op_type (heap g r) = ''Reshape'' then
        (case py_index (node_input (heap g r)) 0 of
           Inl e \<Rightarrow> Inl e
         | Inr in0 \<Rightarrow>
        (case py_index (node_output (heap g r)) 0 of
           Inl e \<Rightarrow> Inl e
         | Inr out0 \<Rightarrow>
             (let input_shape = get_edge_shape shape_infer in0;
                  output_shape = get_edge_shape shape_infer out0
              in Inr (truthy_list input_shape \<and> truthy_list output_shape
                      \<and> input_shape = output_shape))))
      else Inr False)"

text \<open>The first loop: the nodes of the graph, in order, that pass the test.\<close>

fun collect_nodes :: "(nat \<Rightarrow> py_error + bool) \<Rightarrow> nat list \<Rightarrow> py_error + nat list" where
  "collect_nodes useless [] = Inr []"
| "collect_nodes useless (r # rs) =
     (case useless r of
        Inl e \<Rightarrow> Inl e
      | Inr b \<Rightarrow>
          (case collect_nodes useless rs of
             Inl e \<Rightarrow> Inl e
           | Inr collected \<Rightarrow> Inr (if b then r # collected else collected)))"

text \<open>
  The body of the second loop, the same in both passes (lines 205-213 and 236-244), and
  the loop itself. \<open>graph_input_names\<close> and \<open>graph_output_names\<close> are computed once,
  before the loop.
\<close>

definition remove_useless_node ::
  "string set \<Rightarrow> string set \<Rightarrow> onnx_graph \<Rightarrow> nat \<Rightarrow> onnx_graph \<times> py_error option" where
  "remove_useless_node graph_input_names graph_output_names g r =
     (if set (node_output (heap g r)) \<inter> graph_output_names \<noteq> {} then
        if set (node_input (heap g r)) \<inter> graph_input_names = {} then
          (case py_index (node_input (heap g r)) 0 of
             Inl e \<Rightarrow> (g, Some e)
           | Inr in0 \<Rightarrow>
          (case py_index (node_output (heap g r)) 0 of
             Inl e \<Rightarrow> (g, Some e)
           | Inr out0 \<Rightarrow> (remove_node (replace_output_of_all_nodes g in0 out0) r, None)))
        else (g, None)
      else
        (case py_index (node_output (heap g r)) 0 of
           Inl e \<Rightarrow> (g, Some e)
         | Inr out0 \<Rightarrow>
        (case py_index (node_input (heap g r)) 0 of
           Inl e \<Rightarrow> (g, Some e)
         | Inr in0 \<Rightarrow> (remove_node (replace_input_of_all_nodes g out0 in0) r, None))))"

fun remove_collected ::
  "string set \<Rightarrow> string set \<Rightarrow> nat list \<Rightarrow> onnx_graph \<Rightarrow> onnx_graph \<times> py_error option" where
  "remove_collected gin gout [] g = (g, None)"
| "remove_collected gin gout (r # rs) g =
     (case remove_useless_node gin gout g r of
        (g', Some e) \<Rightarrow> (g', Some e)
      | (g', None) \<Rightarrow> remove_collected gin gout rs g')"

definition remove_useless_cast_nodes ::
  "(onnx_graph \<Rightarrow> shape_infer_helper option) \<Rightarrow> (onnx_graph \<Rightarrow> string \<Rightarrow> int option)
     \<Rightarrow> onnx_graph \<Rightarrow> onnx_graph \<times> py_error option" where
  "remove_useless_cast_nodes infer_runtime_shape model_get_dtype g =
     (case infer_runtime_shape g of
        None \<Rightarrow> (g, None)
      | Some shape_infer \<Rightarrow>
          (case collect_nodes (cast_is_useless (model_get_dtype g) shape_infer g) (nodes g) of
             Inl e \<Rightarrow> (g, Some e)
           | Inr collected \<Rightarrow>
               remove_collected (set (get_graphs_input_names g)) (set (get_graphs_output_names g))
                 collected g))"

definition remove_useless_reshape_nodes ::
  "(onnx_graph \<Rightarrow> shape_infer_helper option) \<Rightarrow> onnx_graph \<Rightarrow> onnx_graph \<times> py_error option" where
  "remove_useless_reshape_nodes infer_runtime_shape g =
     (case infer_runtime_shape g of
        None \<Rightarrow> (g, None)
      | Some shape_infer \<Rightarrow>
          (case collect_nodes (reshape_is_useless shape_infer g) (nodes g) of
             Inl e \<Rightarrow> (g, Some e)
           | Inr collected \<Rightarrow>
               remove_collected (set (get_graphs_input_names g)) (set (get_graphs_output_names g))
                 collected g))"

subsection \<open>A graph with conversions at its boundary\<close>

text \<open>
  \<open>in -> Relu -> a -> Cast -> b -> Relu -> c -> Cast -> Y\<close> and \<open>in2 -> Cast -> Z\<close>, with
  graph inputs \<open>in\<close>, \<open>in2\<close> and graph outputs \<open>Y\<close>, \<open>Z\<close>; the inference gives every
  tensor the element type 1 (FLOAT).
\<close>

definition boundary_heap :: "nat \<Rightarrow> node" where
  "boundary_heap = (\<lambda>a. cast [] [] [])
     (20 := \<lparr>op_type = ''Relu'', node_input = [''in''], node_output = [''a''], name = ''relu_a'', domain = [], attribute = []\<rparr>,
      21 := cast ''cast_b'' ''a'' ''b'',
      22 := \<lparr>op_type = ''Relu'', node_input = [''b''], node_output = [''c''], name = ''relu_c'', domain = [], attribute = []\<rparr>,
      23 := cast ''cast_y'' ''c'' ''Y'',
      24 := cast ''cast_z'' ''in2'' ''Z'')"

definition boundary_graph :: onnx_graph where
  "boundary_graph = \<lparr>heap = boundary_heap, nodes = [20, 21, 22, 23, 24],
                      get_graphs_input_names = [''in'', ''in2''], get_graphs_output_names = [''Y'', ''Z'']\<rparr>"

definition all_float :: shape_infer_helper where
  "all_float = \<lparr>known_vi = (\<lambda>nm. Some (Some 1)), get_edge_shape = (\<lambda>nm. None)\<rparr>"




definition fan_out_graph :: onnx_graph where
  "fan_out_graph =
     \<lparr>heap = (\<lambda>a. cast [] [] [])
        (40 := \<lparr>op_type = ''Relu'', node_input = [''in''], node_output = [''x''],
                name = ''relu_x'', domain = [], attribute = []\<rparr>,
         41 := cast ''cast_1'' ''x'' ''Y1'', 42 := cast ''cast_2'' ''x'' ''Y2''),
      nodes = [40, 41, 42],
      get_graphs_input_names = [''in''], get_graphs_output_names = [''Y1'', ''Y2'']\<rparr>"

subsection \<open>The visit of a conversion, in words\<close>




subsection \<open>Skipped passes, and the visits of a pass\<close>







text \<open>
  C8. When \<open>infer_runtime_shape\<close> returns \<open>None\<close>, both passes return at once: the graph
  is the one they were given (no node removed, no name rewritten) and nothing is raised.
\<close>

theorem passes_skip_without_inference:
  assumes "infer_runtime_shape g = None"
  shows "remove_useless_cast_nodes infer_runtime_shape model_get_dtype g = (g, None)
       \<and> remove_useless_reshape_nodes infer_runtime_shape g = (g, None)"
  using assms by (simp add: remove_useless_cast_nodes_def remove_useless_reshape_nodes_def)

theorem passes_skip_without_inference_witness:
  "remove_useless_cast_nodes (\<lambda>g. None) (\<lambda>g nm. None) boundary_graph = (boundary_graph, None)
   \<and> remove_useless_reshape_nodes (\<lambda>g. None) boundary_graph = (boundary_graph, None)"
  using passes_skip_without_inference [of "\<lambda>g. None" boundary_graph "\<lambda>g nm. None"]
  by simp




text \<open>
  When two collected conversions read the same tensor and both write graph outputs, the
  visit to the second finds no output left to rename: the first visit has renamed the
  producer's output already. The second conversion is removed all the same, and no node
  of the resulting graph produces \<open>Y2\<close>.
\<close>

lemma fan_out_loses_producer:
  "\<exists>g'. remove_useless_cast_nodes (\<lambda>g. Some all_float) (\<lambda>g nm. None) fan_out_graph = (g', None)
        \<and> nodes g' = [40] \<and> node_output (heap g' 40) = [''Y1'']"
  by (simp add: fan_out_graph_def cast_def cast_is_useless_def py_index_def get_dtype_def
        all_float_def truthy_int_def remove_useless_cast_nodes_def remove_useless_node_def
        remove_node_def replace_input_of_all_nodes_def replace_output_of_all_nodes_def
        replace_name_def)

end
